theory Spec2Isabelle
  imports Main
begin

section \<open>The fixture file\<close>

text \<open>
  The repository is one static text file, \<^verbatim>\<open>test-python-errors.py\<close>: a corpus of
  deliberately broken Python snippets. Nothing in it is executed; the object of study is
  its byte content. A \<^typ>\<open>char\<close> of HOL is one byte, so the content is a
  \<^typ>\<open>string\<close>, written below line by line exactly as the file stores it: every
  line but the last ends in a line feed, the last line has none, and the one tab of the
  file is written \<open>CHR 0x09\<close>.
\<close>

definition newline :: char where
  "newline = CHR 0x0A"

definition tab :: char where
  "tab = CHR 0x09"

definition space :: char where
  "space = CHR 0x20"

definition dquote :: char where
  "dquote = CHR 0x22"

definition file_text :: string where
  \<open>file_text =
     ''# Python test file with intentional errors for testing error detection\<newline>'' @
     ''\<newline>'' @
     ''# 1. Syntax Error - Invalid indentation\<newline>'' @
     ''def broken_function():\<newline>'' @
     ''print("This should be indented")\<newline>'' @
     ''    return True\<newline>'' @
     ''\<newline>'' @
     ''# 2. Syntax Error - Missing colon\<newline>'' @
     ''def another_broken_function()\<newline>'' @
     ''    return False\<newline>'' @
     ''\<newline>'' @
     ''# 3. Name Error - Undefined variable\<newline>'' @
     ''def use_undefined_variable():\<newline>'' @
     ''    print(undefined_variable)\<newline>'' @
     ''    return result\<newline>'' @
     ''\<newline>'' @
     ''# 4. Type Error - Unsupported operation\<newline>'' @
     ''def type_error_example():\<newline>'' @
     ''    return "string" + 5\<newline>'' @
     ''\<newline>'' @
     ''# 5. Syntax Error - Invalid dictionary\<newline>'' @
     ''broken_dict = {\<newline>'' @
     ''    "key1": "value1",\<newline>'' @
     ''    "key2": "value2"\<newline>'' @
     ''    "key3": "value3"  # Missing comma\<newline>'' @
     ''}\<newline>'' @
     ''\<newline>'' @
     ''# 6. Import Error - Non-existent module\<newline>'' @
     ''import non_existent_module\<newline>'' @
     ''\<newline>'' @
     ''# 7. Syntax Error - Invalid function call\<newline>'' @
     ''def invalid_call():\<newline>'' @
     ''    return some_function(param1, param2,)  # Trailing comma in wrong place\<newline>'' @
     ''\<newline>'' @
     ''# 8. Syntax Error - Unclosed string\<newline>'' @
     ''broken_string = "This string is not closed\<newline>'' @
     ''\<newline>'' @
     ''# 9. Indentation Error - Mixed tabs and spaces\<newline>'' @
     ''def mixed_indentation():\<newline>'' @
     ''    if True:\<newline>'' @
     ''        print("spaces")\<newline>'' @
     (CHR 0x09 # ''print("tabs")  # This line uses tabs\<newline>'') @
     ''\<newline>'' @
     ''# 10. Syntax Error - Invalid assignment\<newline>'' @
     ''5 = variable_name''\<close>

section \<open>Lines\<close>

text \<open>
  Cutting a text at every character that satisfies \<open>P\<close>: \<open>k\<close> such characters give
  \<open>k + 1\<close> pieces, and a piece may be empty. With \<open>P\<close> the test for a line feed this is
  \<^verbatim>\<open>text.split("\n")\<close>, whose last piece is empty when the text ends in a line
  feed. Joining puts one line feed between neighbours, as \<^verbatim>\<open>"\n".join(lines)\<close>
  does.
\<close>

fun split_on :: "(char \<Rightarrow> bool) \<Rightarrow> string \<Rightarrow> string list" where
  "split_on P [] = [[]]"
| "split_on P (c # cs) =
     (if P c then [] # split_on P cs
      else (case split_on P cs of
              [] \<Rightarrow> [[c]]
            | l # ls \<Rightarrow> (c # l) # ls))"

definition split_lines :: "string \<Rightarrow> string list" where
  "split_lines s = split_on (\<lambda>c. c = newline) s"

fun join_lines :: "string list \<Rightarrow> string" where
  "join_lines [] = []"
| "join_lines [l] = l"
| "join_lines (l # l' # ls) = l @ newline # join_lines (l' # ls)"

definition file_lines :: "string list" where
  "file_lines = split_lines file_text"

section \<open>Headers and fragments\<close>

text \<open>
  A header is a comment line that starts with \<^verbatim>\<open># \<close>, then a decimal number, then a
  full stop: \<^verbatim>\<open># 7. Syntax Error - Invalid function call\<close>. The first line of the
  file is a comment too, but carries no number, so it is no header.
\<close>

definition is_digit :: "char \<Rightarrow> bool" where
  "is_digit c = (let k = (of_char c :: nat) in 48 \<le> k \<and> k \<le> 57)"

definition digit_val :: "char \<Rightarrow> nat" where
  "digit_val c = of_char c - 48"

definition parse_nat :: "string \<Rightarrow> nat" where
  "parse_nat ds = foldl (\<lambda>a c. 10 * a + digit_val c) 0 ds"

definition header_number :: "string \<Rightarrow> nat option" where
  "header_number l =
     (case l of
        c1 # c2 # r \<Rightarrow>
          if c1 = CHR ''#'' \<and> c2 = space then
            (let ds = takeWhile is_digit r in
             case dropWhile is_digit r of
               d # _ \<Rightarrow> if ds \<noteq> [] \<and> d = CHR ''.'' then Some (parse_nat ds) else None
             | [] \<Rightarrow> None)
          else None
      | _ \<Rightarrow> None)"

text \<open>
  A fragment is a header with the lines that follow it up to the next header (or the end
  of the file). The lines before the first header belong to no fragment.
\<close>

record fragment =
  number :: nat
  header :: string
  body :: "string list"

fun collect :: "string list \<Rightarrow> string list \<times> fragment list" where
  "collect [] = ([], [])"
| "collect (l # ls) =
     (case collect ls of
        (pre, frs) \<Rightarrow>
          (case header_number l of
             Some n \<Rightarrow> ([], \<lparr>number = n, header = l, body = pre\<rparr> # frs)
           | None \<Rightarrow> (l # pre, frs)))"

definition fragments :: "string list \<Rightarrow> fragment list" where
  "fragments ls = snd (collect ls)"

definition fragment_body :: "nat \<Rightarrow> string list" where
  "fragment_body n =
     (case find (\<lambda>fr. number fr = n) (fragments file_lines) of
        Some fr \<Rightarrow> body fr
      | None \<Rightarrow> [])"

definition is_blank :: "string \<Rightarrow> bool" where
  "is_blank l = list_all (\<lambda>c. c = space \<or> c = tab) l"

definition is_snippet_line :: "string \<Rightarrow> bool" where
  "is_snippet_line l = (header_number l = None \<and> \<not> is_blank l)"



section \<open>Names that one fragment binds and another mentions\<close>

text \<open>
  The words of a line are its maximal runs of letters, digits and underscores, wherever
  they stand: in code, in a string or in a comment. A line binds a name when it is a
  \<^verbatim>\<open>def\<close> or an \<^verbatim>\<open>import\<close> of that name, or an assignment to it at the start
  of the line.
\<close>

definition is_ident_char :: "char \<Rightarrow> bool" where
  "is_ident_char c =
     (let k = (of_char c :: nat)
      in (48 \<le> k \<and> k \<le> 57) \<or> (65 \<le> k \<and> k \<le> 90) \<or> (97 \<le> k \<and> k \<le> 122) \<or> k = 95)"

definition words_of :: "string \<Rightarrow> string list" where
  "words_of l = filter (\<lambda>w. w \<noteq> []) (split_on (\<lambda>c. \<not> is_ident_char c) l)"

definition starts_with :: "string \<Rightarrow> string \<Rightarrow> bool" where
  "starts_with p l = (take (length p) l = p)"

definition assign_target :: "string \<Rightarrow> string option" where
  "assign_target l =
     (case takeWhile is_ident_char l of
        [] \<Rightarrow> None
      | c # cs \<Rightarrow>
          if \<not> is_digit c \<and> starts_with '' = '' (dropWhile is_ident_char l)
          then Some (c # cs) else None)"

definition bound_name :: "string \<Rightarrow> string option" where
  "bound_name l =
     (case words_of l of
        w # v # _ \<Rightarrow> if w = ''def'' \<or> w = ''import'' then Some v else assign_target l
      | _ \<Rightarrow> assign_target l)"






section \<open>String literals and indentation\<close>

text \<open>
  Whether a line ends inside a double-quoted string: a double quote opens a string or
  closes the open one, and a \<^verbatim>\<open>#\<close> outside a string starts a comment, which runs to
  the end of the line. (The file has no single quote and no backslash.)
\<close>

fun ends_in_string :: "bool \<Rightarrow> string \<Rightarrow> bool" where
  "ends_in_string inside [] = inside"
| "ends_in_string inside (c # cs) =
     (if c = dquote then ends_in_string (\<not> inside) cs
      else if c = CHR ''#'' \<and> \<not> inside then False
      else ends_in_string inside cs)"

definition unclosed_string :: "string \<Rightarrow> bool" where
  "unclosed_string l = ends_in_string False l"

definition after_first_quote :: "string \<Rightarrow> string" where
  "after_first_quote l = tl (dropWhile (\<lambda>c. c \<noteq> dquote) l)"

text \<open>The indentation of a line: its leading spaces and tabs.\<close>

definition indent_of :: "string \<Rightarrow> string" where
  "indent_of l = takeWhile (\<lambda>c. c = space \<or> c = tab) l"

definition space_indented :: "string \<Rightarrow> bool" where
  "space_indented l = (indent_of l \<noteq> [] \<and> list_all (\<lambda>c. c = space) (indent_of l))"

definition tab_indented :: "string \<Rightarrow> bool" where
  "tab_indented l = (tab \<in> set (indent_of l))"

section \<open>Bytes and decoding\<close>

definition is_printable :: "char \<Rightarrow> bool" where
  "is_printable c = (let k = (of_char c :: nat) in 32 \<le> k \<and> k \<le> 126)"

definition plain_byte :: "char \<Rightarrow> bool" where
  "plain_byte c = (is_printable c \<or> c = tab \<or> c = newline)"

definition is_ascii :: "char \<Rightarrow> bool" where
  "is_ascii c = ((of_char c :: nat) < 128)"

datatype decode_error =
  Ordinal_Not_In_Range
| Invalid_Start_Byte
| Invalid_Continuation_Byte
| Unexpected_End

text \<open>
  The strict ASCII decoder: a byte of 128 or more is an error, any other byte is its own
  code point.
\<close>

fun ascii_decode :: "string \<Rightarrow> decode_error + nat list" where
  "ascii_decode [] = Inr []"
| "ascii_decode (c # cs) =
     (if is_ascii c then
        (case ascii_decode cs of
           Inl e \<Rightarrow> Inl e
         | Inr ps \<Rightarrow> Inr (of_char c # ps))
      else Inl Ordinal_Not_In_Range)"

text \<open>
  The strict UTF-8 decoder, as a machine over the bytes: between characters it expects a
  start byte, which is an ASCII byte (a character of its own) or announces one, two or
  three continuation bytes; inside a character it expects a continuation byte between
  \<open>lower\<close> and \<open>upper\<close>. The bounds of the first continuation byte depend on the start
  byte, which rules out overlong forms, surrogates and code points beyond 0x10FFFF.
\<close>

record utf8_state =
  code_point :: nat
  bytes_needed :: nat
  lower :: nat
  upper :: nat

definition utf8_init :: utf8_state where
  "utf8_init = \<lparr>code_point = 0, bytes_needed = 0, lower = 0x80, upper = 0xBF\<rparr>"

definition emit :: "nat \<Rightarrow> decode_error + nat list \<Rightarrow> decode_error + nat list" where
  "emit p r = (case r of Inl e \<Rightarrow> Inl e | Inr ps \<Rightarrow> Inr (p # ps))"

fun utf8_run :: "utf8_state \<Rightarrow> string \<Rightarrow> decode_error + nat list" where
  "utf8_run st [] = (if bytes_needed st = 0 then Inr [] else Inl Unexpected_End)"
| "utf8_run st (c # cs) =
     (let b = (of_char c :: nat) in
      if bytes_needed st = 0 then
        if b \<le> 0x7F then emit b (utf8_run st cs)
        else if 0xC2 \<le> b \<and> b \<le> 0xDF then
          utf8_run (st\<lparr>code_point := b mod 0x20, bytes_needed := 1\<rparr>) cs
        else if 0xE0 \<le> b \<and> b \<le> 0xEF then
          utf8_run (st\<lparr>code_point := b mod 0x10, bytes_needed := 2,
                       lower := (if b = 0xE0 then 0xA0 else 0x80),
                       upper := (if b = 0xED then 0x9F else 0xBF)\<rparr>) cs
        else if 0xF0 \<le> b \<and> b \<le> 0xF4 then
          utf8_run (st\<lparr>code_point := b mod 0x08, bytes_needed := 3,
                       lower := (if b = 0xF0 then 0x90 else 0x80),
                       upper := (if b = 0xF4 then 0x8F else 0xBF)\<rparr>) cs
        else Inl Invalid_Start_Byte
      else if b < lower st \<or> upper st < b then Inl Invalid_Continuation_Byte
      else
        (let p = code_point st * 0x40 + b mod 0x40 in
         if bytes_needed st = 1 then emit p (utf8_run utf8_init cs)
         else utf8_run \<lparr>code_point = p, bytes_needed = bytes_needed st - 1,
                         lower = 0x80, upper = 0xBF\<rparr> cs))"

definition utf8_decode :: "string \<Rightarrow> decode_error + nat list" where
  "utf8_decode bs = utf8_run utf8_init bs"

section \<open>The file, evaluated\<close>

text \<open>
  The lines of the file, its header numbers and its fragments, computed once from the bytes;
  the properties below are read off these.
\<close>

lemma file_lines_eq:
  \<open>file_lines =
     [''# Python test file with intentional errors for testing error detection'',
      '''',
      ''# 1. Syntax Error - Invalid indentation'',
      ''def broken_function():'',
      ''print("This should be indented")'',
      ''    return True'',
      '''',
      ''# 2. Syntax Error - Missing colon'',
      ''def another_broken_function()'',
      ''    return False'',
      '''',
      ''# 3. Name Error - Undefined variable'',
      ''def use_undefined_variable():'',
      ''    print(undefined_variable)'',
      ''    return result'',
      '''',
      ''# 4. Type Error - Unsupported operation'',
      ''def type_error_example():'',
      ''    return "string" + 5'',
      '''',
      ''# 5. Syntax Error - Invalid dictionary'',
      ''broken_dict = {'',
      ''    "key1": "value1",'',
      ''    "key2": "value2"'',
      ''    "key3": "value3"  # Missing comma'',
      ''}'',
      '''',
      ''# 6. Import Error - Non-existent module'',
      ''import non_existent_module'',
      '''',
      ''# 7. Syntax Error - Invalid function call'',
      ''def invalid_call():'',
      ''    return some_function(param1, param2,)  # Trailing comma in wrong place'',
      '''',
      ''# 8. Syntax Error - Unclosed string'',
      ''broken_string = "This string is not closed'',
      '''',
      ''# 9. Indentation Error - Mixed tabs and spaces'',
      ''def mixed_indentation():'',
      ''    if True:'',
      ''        print("spaces")'',
      (CHR 0x09 # ''print("tabs")  # This line uses tabs''),
      '''',
      ''# 10. Syntax Error - Invalid assignment'',
      ''5 = variable_name'']\<close>
  unfolding file_lines_def split_lines_def file_text_def by code_simp

lemma header_numbers_eq: "map header_number file_lines =
  [None, None, Some 1, None, None, None, None, Some 2, None, None, None,
  Some 3, None, None, None, None, Some 4, None, None, None, Some 5, None,
  None, None, None, None, None, Some 6, None, None, Some 7, None, None,
  None, Some 8, None, None, Some 9, None, None, None, None, None, Some 10,
  None]"
  unfolding file_lines_eq
  by (simp add: header_number_def is_digit_def digit_val_def parse_nat_def space_def)

lemma fragments_eq:
  \<open>fragments file_lines =
     [\<lparr>number = 1, header = ''# 1. Syntax Error - Invalid indentation'',
        body = [''def broken_function():'',
                ''print("This should be indented")'',
                ''    return True'',
                '''']\<rparr>,
      \<lparr>number = 2, header = ''# 2. Syntax Error - Missing colon'',
        body = [''def another_broken_function()'',
                ''    return False'',
                '''']\<rparr>,
      \<lparr>number = 3, header = ''# 3. Name Error - Undefined variable'',
        body = [''def use_undefined_variable():'',
                ''    print(undefined_variable)'',
                ''    return result'',
                '''']\<rparr>,
      \<lparr>number = 4, header = ''# 4. Type Error - Unsupported operation'',
        body = [''def type_error_example():'',
                ''    return "string" + 5'',
                '''']\<rparr>,
      \<lparr>number = 5, header = ''# 5. Syntax Error - Invalid dictionary'',
        body = [''broken_dict = {'',
                ''    "key1": "value1",'',
                ''    "key2": "value2"'',
                ''    "key3": "value3"  # Missing comma'',
                ''}'',
                '''']\<rparr>,
      \<lparr>number = 6, header = ''# 6. Import Error - Non-existent module'',
        body = [''import non_existent_module'',
                '''']\<rparr>,
      \<lparr>number = 7, header = ''# 7. Syntax Error - Invalid function call'',
        body = [''def invalid_call():'',
                ''    return some_function(param1, param2,)  # Trailing comma in wrong place'',
                '''']\<rparr>,
      \<lparr>number = 8, header = ''# 8. Syntax Error - Unclosed string'',
        body = [''broken_string = "This string is not closed'',
                '''']\<rparr>,
      \<lparr>number = 9, header = ''# 9. Indentation Error - Mixed tabs and spaces'',
        body = [''def mixed_indentation():'',
                ''    if True:'',
                ''        print("spaces")'',
                (CHR 0x09 # ''print("tabs")  # This line uses tabs''),
                '''']\<rparr>,
      \<lparr>number = 10, header = ''# 10. Syntax Error - Invalid assignment'',
        body = [''5 = variable_name'']\<rparr>]\<close>
  unfolding fragments_def file_lines_eq
  by (simp add: header_number_def is_digit_def digit_val_def parse_nat_def space_def)

lemma split_on_nonempty: "split_on P s \<noteq> []"
  by (induction s) (auto split: list.splits)

lemma join_split_lines: "join_lines (split_lines s) = s"
proof (induction s)
  case Nil
  show ?case by (simp add: split_lines_def)
next
  case (Cons c cs)
  obtain l ls where e: "split_on (\<lambda>c. c = newline) cs = l # ls"
    using split_on_nonempty [of "\<lambda>c. c = newline" cs] by (cases "split_on (\<lambda>c. c = newline) cs") auto
  show ?case
    using Cons e by (cases ls) (auto simp: split_lines_def)
qed

lemma count_header_numbers:
  "length (filter (\<lambda>l. header_number l = Some n) file_lines) =
     (if 1 \<le> n \<and> n \<le> 10 then 1 else 0)"
proof -
  have "length (filter (\<lambda>l. header_number l = Some n) file_lines) =
        length (filter (\<lambda>h. h = Some n) (map header_number file_lines))"
    by (simp add: filter_map comp_def)
  also have "\<dots> = (if 1 \<le> n \<and> n \<le> 10 then 1 else 0)"
    unfolding header_numbers_eq by auto arith
  finally show ?thesis .
qed




lemma map_filter_headers:
  "List.map_filter header_number file_lines = [1, 2, 3, 4, 5, 6, 7, 8, 9, 10]"
proof -
  have "List.map_filter header_number file_lines =
        List.map_filter id (map header_number file_lines)"
    by (simp add: List.map_filter_def filter_map comp_def)
  also have "\<dots> = [1, 2, 3, 4, 5, 6, 7, 8, 9, 10]"
    unfolding header_numbers_eq by (simp add: List.map_filter_simps)
  finally show ?thesis .
qed

lemma fragments_have_snippets:
  "list_all (\<lambda>fr. list_ex is_snippet_line (body fr)) (fragments file_lines)"
  unfolding fragments_eq by code_simp

lemma fragment_numbers: "map number (fragments file_lines) = [1, 2, 3, 4, 5, 6, 7, 8, 9, 10]"
  unfolding fragments_eq by simp



lemma file_bytes_plain: "list_all plain_byte file_text"
  unfolding file_text_def by code_simp

lemma plain_byte_ascii: "plain_byte c \<Longrightarrow> is_ascii c"
  by (auto simp: plain_byte_def is_printable_def is_ascii_def tab_def newline_def Let_def)

lemma ascii_decode_ascii: "list_all is_ascii bs \<Longrightarrow> ascii_decode bs = Inr (map of_char bs)"
  by (induction bs) auto

lemma utf8_run_ascii: "list_all is_ascii bs \<Longrightarrow> utf8_run utf8_init bs = Inr (map of_char bs)"
  by (induction bs) (auto simp: utf8_init_def emit_def is_ascii_def Let_def)

lemma fragment_body_8:
  \<open>fragment_body 8 = [''broken_string = "This string is not closed'', []]\<close>
  unfolding fragment_body_def fragments_eq by simp

lemma fragment_body_9:
  \<open>fragment_body 9 =
     [''def mixed_indentation():'',
      ''    if True:'',
      ''        print("spaces")'',
      (CHR 0x09 # ''print("tabs")  # This line uses tabs''),
      []]\<close>
  unfolding fragment_body_def fragments_eq by simp

lemma unclosed_lines:
  \<open>filter unclosed_string file_lines = [''broken_string = "This string is not closed'']\<close>
  unfolding file_lines_eq by code_simp

section \<open>The line structure of the file\<close>

text \<open>
  C6. The file is losslessly readable as a sequence of lines: splitting its text at the
  line feeds and joining the pieces with line feeds gives the text back, byte for byte.
  The file has 45 lines, and the last one is not empty: the text does not end in a line
  feed, so a reader that treats the line feed as a terminator sees the same 45 lines.
\<close>

theorem file_lines_roundtrip:
  "join_lines (split_lines file_text) = file_text \<and>
   length (split_lines file_text) = 45 \<and>
   last (split_lines file_text) = ''5 = variable_name''"
proof -
  have "join_lines (split_lines file_text) = file_text"
    by (rule join_split_lines)
  moreover have "length (split_lines file_text) = 45"
    unfolding file_lines_def [symmetric] file_lines_eq by simp
  moreover have "last (split_lines file_text) = ''5 = variable_name''"
    unfolding file_lines_def [symmetric] file_lines_eq by simp
  ultimately show ?thesis by simp
qed

section \<open>Ten labeled fragments\<close>

text \<open>
  C1. The file is an ordered sequence of exactly ten labeled fragments. The header
  numbers, read down the file, are 1, 2, ..., 10; for every \<open>n\<close> the file has exactly one
  header line \<^verbatim>\<open># n.\<close> when \<open>n\<close> is between 1 and 10, and none otherwise; and the
  body of every fragment, the lines between its header and the next one, has a snippet
  line: a line that is neither blank nor a header.
\<close>

theorem ten_labeled_fragments:
  "List.map_filter header_number file_lines = [1, 2, 3, 4, 5, 6, 7, 8, 9, 10] \<and>
   (\<forall>n. length (filter (\<lambda>l. header_number l = Some n) file_lines) =
          (if 1 \<le> n \<and> n \<le> 10 then 1 else 0)) \<and>
   map number (fragments file_lines) = [1, 2, 3, 4, 5, 6, 7, 8, 9, 10] \<and>
   list_all (\<lambda>fr. list_ex is_snippet_line (body fr)) (fragments file_lines)"
  using map_filter_headers count_header_numbers fragment_numbers fragments_have_snippets
  by blast

section \<open>The order of the fragments\<close>



section \<open>Fragments 8 and 9\<close>

text \<open>
  C7. Fragment 8 shows an unclosed string. Its one line that assigns \<open>broken_string\<close>
  has exactly one double quote, an odd number; no double quote follows that one, so the
  string it opens is still open at the end of the line. It is the only line of the file
  that ends inside a string.
\<close>

theorem fragment_8_unclosed_string:
  \<open>\<exists>l. filter (\<lambda>l. bound_name l = Some ''broken_string'') (fragment_body 8) = [l] \<and>
        l = ''broken_string = "This string is not closed'' \<and>
        count_list l dquote = 1 \<and>
        odd (count_list l dquote) \<and>
        dquote \<notin> set (after_first_quote l) \<and>
        unclosed_string l \<and>
        filter unclosed_string file_lines = [l]\<close>
proof -
  let ?l = \<open>''broken_string = "This string is not closed''\<close>
  have 1: "filter (\<lambda>l. bound_name l = Some ''broken_string'') (fragment_body 8) = [?l]"
    unfolding fragment_body_8 by code_simp
  have 2: "count_list ?l dquote = 1"
    by (simp add: dquote_def)
  have 3: "dquote \<notin> set (after_first_quote ?l)"
    by (simp add: after_first_quote_def dquote_def)
  have 4: "unclosed_string ?l"
    by (simp add: unclosed_string_def dquote_def)
  show ?thesis
    using 1 2 3 4 unclosed_lines by simp
qed

text \<open>
  C8. Fragment 9 shows mixed whitespace. Two of its lines are indented with spaces only,
  a third one is indented with a tab, and no line is both.
\<close>

theorem fragment_9_mixed_whitespace:
  \<open>list_ex space_indented (fragment_body 9) \<and>
   list_ex tab_indented (fragment_body 9) \<and>
   filter space_indented (fragment_body 9) = [''    if True:'', ''        print("spaces")''] \<and>
   filter tab_indented (fragment_body 9) = [CHR 0x09 # ''print("tabs")  # This line uses tabs''] \<and>
   filter (\<lambda>l. space_indented l \<and> tab_indented l) (fragment_body 9) = []\<close>
  unfolding fragment_body_9
  by (simp add: space_indented_def tab_indented_def indent_of_def space_def tab_def)

section \<open>The bytes of the file\<close>

text \<open>
  Both decoders do reject input: a byte of 128 or more is no ASCII, and UTF-8 refuses a
  byte that cannot start a character, a continuation byte out of range, an overlong
  form, a surrogate and a character cut short.
\<close>

lemma ascii_decode_rejects: "ascii_decode [CHR 0x41, CHR 0xE9] = Inl Ordinal_Not_In_Range"
  by (simp add: is_ascii_def)

lemma utf8_decode_accepts:
  "utf8_decode [CHR 0x41, CHR 0xC3, CHR 0xA9] = Inr [65, 233] \<and>
   utf8_decode [CHR 0xE2, CHR 0x82, CHR 0xAC] = Inr [8364] \<and>
   utf8_decode [CHR 0xF0, CHR 0x9F, CHR 0x98, CHR 0x80] = Inr [128512]"
  by (simp add: utf8_decode_def utf8_init_def emit_def)

lemma utf8_decode_rejects:
  "utf8_decode [CHR 0xFF] = Inl Invalid_Start_Byte \<and>
   utf8_decode [CHR 0xC0, CHR 0x80] = Inl Invalid_Start_Byte \<and>
   utf8_decode [CHR 0xE2, CHR 0x41] = Inl Invalid_Continuation_Byte \<and>
   utf8_decode [CHR 0xED, CHR 0xA0, CHR 0x80] = Inl Invalid_Continuation_Byte \<and>
   utf8_decode [CHR 0xE2, CHR 0x82] = Inl Unexpected_End"
  by (simp add: utf8_decode_def utf8_init_def emit_def)

text \<open>
  C10. Every byte of the file is a printable ASCII character, a tab or a line feed. So
  every byte is below 128, and the strict ASCII decoder and the strict UTF-8 decoder
  both return the text, each byte as its own code point, without an error.
\<close>

theorem file_bytes_decodable:
  "list_all plain_byte file_text \<and>
   list_all is_ascii file_text \<and>
   ascii_decode file_text = Inr (map of_char file_text) \<and>
   utf8_decode file_text = Inr (map of_char file_text)"
proof -
  have a: "list_all is_ascii file_text"
    using file_bytes_plain plain_byte_ascii by (auto simp: list_all_iff)
  show ?thesis
    using file_bytes_plain a ascii_decode_ascii [OF a] utf8_run_ascii [OF a]
    by (simp add: utf8_decode_def)
qed

end
